theory Spec2Isabelle
  imports Main "HOL-Library.Word"
begin

unbundle bit_operations_syntax

section \<open>The process: outcomes, observable calls, state\<close>

text \<open>
  A shallow embedding of \<^verbatim>\<open>main.go\<close>: a small HTTP server that stops accepting
  connections when a file is created in a watched directory, waits a bounded time for the
  accepted connections to be closed, and exits.

  Every function of the program is a function from the process state to an outcome and
  the next state. An outcome is what a Go function call can end in: it returns, it
  panics, it ends the whole process through \<^verbatim>\<open>os.Exit\<close>, or it never comes back
  (it is blocked in a receive or an accept).
\<close>

type_synonym error = string

datatype 'a outcome =
    Return 'a
  | Panic string
  | Exit int
  | Block

text \<open>
  The calls the program makes on the packages it imports, in program order. The trace is
  the only place where the model records them, so that the order of two calls can be
  stated.
\<close>

datatype arg = Str string | Num int | Srv

datatype event =
    Log string "arg list"
  | Print string
  | ConnClose string
  | WgAdd int
  | ListenerAccept
  | ListenerClose
  | Listen string int
  | NewWatcher
  | WatcherAdd string
  | WatcherClose
  | ChanClose string
  | Go string
  | HandleFunc string
  | Serve

text \<open>A connection of the \<^verbatim>\<open>net\<close> package: its remote address, and what its own
  \<^verbatim>\<open>Close\<close> answers (\<open>None\<close> is Go's \<^verbatim>\<open>nil\<close> error).\<close>

record netConn =
  RemoteAddr :: string
  CloseErr :: "error option"

text \<open>\<^verbatim>\<open>type semConn struct { net.Conn }\<close>: the values of \<^verbatim>\<open>net.Conn\<close> the program
  handles are the listener's own connections and the wrapped ones.\<close>

datatype conn = TCPConn netConn | SemConn netConn

datatype chan = Open | Closed

text \<open>
  The state of the process: the counter of the global \<^verbatim>\<open>wg\<close>, the global
  \<^verbatim>\<open>config\<close>, the two channels of \<^verbatim>\<open>startWatcher\<close>, and of the
  \<^verbatim>\<open>net.Listener\<close> whether it is closed and which answers its \<^verbatim>\<open>Accept\<close> has
  in store while it is open.
\<close>

record proc =
  wg :: int
  trace :: "event list"
  port :: int
  maxWait :: "64 word"
  watchDir :: string
  lnClosed :: bool
  backlog :: "(netConn option \<times> error option) list"
  newBin :: chan
  stopCh :: chan

definition emit :: "event \<Rightarrow> proc \<Rightarrow> proc" where
  "emit e s = s\<lparr>trace := trace s @ [e]\<rparr>"

text \<open>\<^verbatim>\<open>log.Printf\<close> and \<^verbatim>\<open>log.Println\<close>: the trace keeps the format and its
  arguments, not the formatted line.\<close>

definition log_Printf :: "string \<Rightarrow> arg list \<Rightarrow> proc \<Rightarrow> proc" where
  "log_Printf fmt as s = emit (Log fmt as) s"

text \<open>\<^verbatim>\<open>log.Fatalf\<close> is \<^verbatim>\<open>Printf\<close> followed by \<^verbatim>\<open>os.Exit(1)\<close>.\<close>

definition log_Fatalf :: "string \<Rightarrow> arg list \<Rightarrow> proc \<Rightarrow> 'a outcome \<times> proc" where
  "log_Fatalf fmt as s = (Exit 1, log_Printf fmt as s)"

text \<open>Sequencing: the rest of a function body runs only when the call returned.\<close>

fun andThen :: "'a outcome \<times> proc \<Rightarrow> ('a \<Rightarrow> proc \<Rightarrow> 'b outcome \<times> proc) \<Rightarrow> 'b outcome \<times> proc" where
  "andThen (Return x, s) k = k x s"
| "andThen (Panic m, s) k = (Panic m, s)"
| "andThen (Exit n, s) k = (Exit n, s)"
| "andThen (Block, s) k = (Block, s)"

subsection \<open>\<^verbatim>\<open>var wg sync.WaitGroup\<close>\<close>

text \<open>
  \<^verbatim>\<open>Add\<close> adds the delta to the counter and panics when the counter has become
  negative; \<^verbatim>\<open>Done\<close> is \<^verbatim>\<open>Add(-1)\<close>.
\<close>

definition wg_Add :: "int \<Rightarrow> proc \<Rightarrow> unit outcome \<times> proc" where
  "wg_Add delta s =
     (let s1 = emit (WgAdd delta) (s\<lparr>wg := wg s + delta\<rparr>)
      in if wg s1 < 0 then (Panic ''sync: negative WaitGroup counter'', s1)
         else (Return (), s1))"

definition wg_Done :: "proc \<Rightarrow> unit outcome \<times> proc" where
  "wg_Done s = wg_Add (- 1) s"

subsection \<open>\<^verbatim>\<open>semConn.Close\<close>\<close>

definition netConn_Close :: "netConn \<Rightarrow> proc \<Rightarrow> error option \<times> proc" where
  "netConn_Close c s = (CloseErr c, emit (ConnClose (RemoteAddr c)) s)"

definition semConn_Close :: "netConn \<Rightarrow> proc \<Rightarrow> error option outcome \<times> proc" where
  "semConn_Close c s =
     (let (err, s1) = netConn_Close c s;
          s2 = log_Printf ''connection to %s closed'' [Str (RemoteAddr c)] s1
      in andThen (wg_Done s2) (\<lambda>u s3. (Return err, s3)))"

subsection \<open>\<^verbatim>\<open>stoppableListener\<close>\<close>

text \<open>
  The embedded \<^verbatim>\<open>net.Listener\<close>. Once it is closed its \<^verbatim>\<open>Accept\<close> fails; while it
  is open it hands out the next answer in store, and blocks when there is none. An answer
  is the pair \<^verbatim>\<open>(c, err)\<close> that Go's \<^verbatim>\<open>Accept\<close> returns.
\<close>

definition errClosed :: error where
  "errClosed = ''use of closed network connection''"

definition netListener_Accept :: "proc \<Rightarrow> (netConn option \<times> error option) outcome \<times> proc" where
  "netListener_Accept s =
     (let s1 = emit ListenerAccept s
      in if lnClosed s then (Return (None, Some errClosed), s1)
         else (case backlog s of
                 [] \<Rightarrow> (Block, s1)
               | a # rest \<Rightarrow> (Return a, s1\<lparr>backlog := rest\<rparr>)))"

definition netListener_Close :: "proc \<Rightarrow> error option \<times> proc" where
  "netListener_Close s =
     (if lnClosed s then Some errClosed else None, emit ListenerClose (s\<lparr>lnClosed := True\<rparr>))"

text \<open>
  \<^verbatim>\<open>Accept\<close> returns the pair of the named results \<^verbatim>\<open>(c, err)\<close>. With a \<^verbatim>\<open>nil\<close>
  error and a \<^verbatim>\<open>nil\<close> connection, \<^verbatim>\<open>c.RemoteAddr()\<close> is a call on a nil interface.
\<close>

definition stoppableListener_Accept :: "proc \<Rightarrow> (conn option \<times> error option) outcome \<times> proc" where
  "stoppableListener_Accept s =
     andThen (netListener_Accept s) (\<lambda>(c, err) s1.
       case err of
         Some e \<Rightarrow> (Return (map_option TCPConn c, Some e), s1)
       | None \<Rightarrow>
          (case c of
             None \<Rightarrow> (Panic ''invalid memory address or nil pointer dereference'', s1)
           | Some n \<Rightarrow>
               (let s2 = log_Printf ''new connection from %s'' [Str (RemoteAddr n)] s1
                in andThen (wg_Add 1 s2) (\<lambda>u s3. (Return (Some (SemConn n), None), s3)))))"

text \<open>
  \<^verbatim>\<open>waitForClose\<close> starts a goroutine and returns. The goroutine receives from
  \<^verbatim>\<open>initShutdown\<close> (the channel \<^verbatim>\<open>newBin\<close>), which blocks until the channel is
  closed, then closes the embedded listener and drops the result.
\<close>

definition waitForClose :: "proc \<Rightarrow> proc" where
  "waitForClose s = emit (Go ''waitForClose'') s"

definition waitForClose_goroutine :: "proc \<Rightarrow> unit outcome \<times> proc" where
  "waitForClose_goroutine s =
     (case newBin s of
        Open \<Rightarrow> (Block, s)
      | Closed \<Rightarrow>
          (let s1 = log_Printf ''Stopping listening for new connections'' [] s;
               (err, s2) = netListener_Close s1
           in (Return (), s2)))"

subsection \<open>\<^verbatim>\<open>startWatcher\<close>\<close>

text \<open>
  \<^verbatim>\<open>fsnotify.Op\<close> is a \<^verbatim>\<open>uint32\<close> of flags, declared in the imported package as
  \<^verbatim>\<open>Create Op = 1 << iota\<close>, then \<^verbatim>\<open>Write\<close>, \<^verbatim>\<open>Remove\<close>, \<^verbatim>\<open>Rename\<close>,
  \<^verbatim>\<open>Chmod\<close>.
\<close>

type_synonym Op = "32 word"

definition Create :: Op where "Create = 1"
definition Write :: Op where "Write = 2"
definition Remove :: Op where "Remove = 4"
definition Rename :: Op where "Rename = 8"
definition Chmod :: Op where "Chmod = 16"

record Event =
  Name :: string
  Op :: Op

text \<open>What the \<^verbatim>\<open>select\<close> of the watcher goroutine receives: an event, an error, or the
  closing of \<^verbatim>\<open>stop\<close>.\<close>

datatype received = Events Event | Errors error | Stop

text \<open>\<^verbatim>\<open>close(ch)\<close> panics on a channel that is closed already.\<close>

definition close_newBin :: "proc \<Rightarrow> unit outcome \<times> proc" where
  "close_newBin s =
     (let s1 = emit (ChanClose ''newBin'') s
      in case newBin s of
           Open \<Rightarrow> (Return (), s1\<lparr>newBin := Closed\<rparr>)
         | Closed \<Rightarrow> (Panic ''close of closed channel'', s1))"

definition close_stop :: "proc \<Rightarrow> unit outcome \<times> proc" where
  "close_stop s =
     (let s1 = emit (ChanClose ''stop'') s
      in case stopCh s of
           Open \<Rightarrow> (Return (), s1\<lparr>stopCh := Closed\<rparr>)
         | Closed \<Rightarrow> (Panic ''close of closed channel'', s1))"

text \<open>
  The goroutine of \<^verbatim>\<open>startWatcher\<close>: the loop over what its \<^verbatim>\<open>select\<close> receives, in
  the order received. With nothing left to receive the goroutine is blocked in the
  \<^verbatim>\<open>select\<close>.
\<close>

fun watcher_goroutine :: "received list \<Rightarrow> proc \<Rightarrow> unit outcome \<times> proc" where
  "watcher_goroutine [] s = (Block, s)"
| "watcher_goroutine (Events evt # rest) s =
     (if Op evt AND Create = Create
      then (case close_newBin (log_Printf ''New binary found. Preparing to shutdown.'' [] s) of
              (Return u, s1) \<Rightarrow> watcher_goroutine rest s1
            | (Panic m, s1) \<Rightarrow> (Panic m, s1)
            | (Exit n, s1) \<Rightarrow> (Exit n, s1)
            | (Block, s1) \<Rightarrow> (Block, s1))
      else watcher_goroutine rest s)"
| "watcher_goroutine (Errors err # rest) s =
     log_Fatalf ''File watcher error occurred: %v'' [Str err] s"
| "watcher_goroutine (Stop # rest) s = (Return (), emit WatcherClose s)"

text \<open>
  What the process is started with and what the packages outside the program answer:
  the command line as \<^verbatim>\<open>flag.Parse\<close> leaves it, the results of \<^verbatim>\<open>net.Listen\<close>,
  \<^verbatim>\<open>fsnotify.NewWatcher\<close> and \<^verbatim>\<open>w.Add\<close>, and for the final wait what happens
  around it, in the order in which it happens: first between the \<^verbatim>\<open>go\<close> statement of
  \<^verbatim>\<open>waitClients\<close> and the moment \<^verbatim>\<open>main\<close> reaches the \<^verbatim>\<open>select\<close>, then while
  \<^verbatim>\<open>main\<close> is blocked in it; and which case a \<^verbatim>\<open>select\<close> that finds two cases ready
  takes. What happens is that time passes (in nanoseconds), that a handler goroutine
  closes its connection, or that the scheduler runs the goroutine of \<^verbatim>\<open>waitClients\<close>.
  The flag \<^verbatim>\<open>maxWait\<close> is a Go \<^verbatim>\<open>int\<close>, taken at 64 bits.
\<close>

datatype wait_event = Elapse nat | CloseOf netConn | WaitRuns

record env =
  flagsSet :: "(string \<times> string) list"
  flagPort :: int
  flagMaxWait :: "64 word"
  args :: "string list"
  listenErr :: "error option"
  newWatcherErr :: "error option"
  addErr :: "error option"
  pickTimeout :: bool
  beforeSelect :: "wait_event list"
  whileWaiting :: "wait_event list"

definition watcher_Add :: "env \<Rightarrow> string \<Rightarrow> proc \<Rightarrow> error option \<times> proc" where
  "watcher_Add e dir s = (addErr e, emit (WatcherAdd dir) s)"

definition startWatcher :: "env \<Rightarrow> proc \<Rightarrow> unit outcome \<times> proc" where
  "startWatcher e s =
     (let s1 = emit NewWatcher s
      in case newWatcherErr e of
           Some err \<Rightarrow> log_Fatalf ''Could not create watcher: %v'' [Str err] s1
         | None \<Rightarrow>
             (let s2 = s1\<lparr>stopCh := Open, newBin := Open\<rparr>;
                  s3 = emit (Go ''watcher'') s2;
                  (err, s4) = watcher_Add e (watchDir s3) s3
              in (Return (), s4)))"

subsection \<open>\<^verbatim>\<open>waitClients\<close>\<close>

text \<open>
  \<^verbatim>\<open>time.After(maxWait)\<close> delivers once \<open>maxWait\<close> nanoseconds have passed, at once for
  a duration that is not positive. The channel \<^verbatim>\<open>allClosed\<close> is closed by the goroutine
  that \<^verbatim>\<open>waitClients\<close> starts, and only when that goroutine gets to run: with the
  counter at zero its \<^verbatim>\<open>wg.Wait()\<close> returns and it closes the channel, with any other
  counter it stays blocked in \<^verbatim>\<open>wg.Wait()\<close>. Closing a connection is
  \<^verbatim>\<open>semConn.Close\<close>, whose panic is the end of the process.
\<close>

fun wait_step :: "wait_event \<Rightarrow> int \<Rightarrow> chan \<Rightarrow> proc \<Rightarrow> (int \<times> chan) outcome \<times> proc" where
  "wait_step (Elapse n) t ac s = (Return (t + int n, ac), s)"
| "wait_step (CloseOf c) t ac s =
     andThen (semConn_Close c s) (\<lambda>err s1. (Return (t, ac), s1))"
| "wait_step WaitRuns t ac s =
     (if wg s = 0 \<and> ac = Open then (Return (t, Closed), emit (ChanClose ''allClosed'') s)
      else (Return (t, ac), s))"

text \<open>What happens before \<^verbatim>\<open>main\<close> reaches the \<^verbatim>\<open>select\<close>: nobody looks at the
  channels yet.\<close>

fun before_select :: "wait_event list \<Rightarrow> int \<Rightarrow> chan \<Rightarrow> proc \<Rightarrow> (int \<times> chan) outcome \<times> proc" where
  "before_select [] t ac s = (Return (t, ac), s)"
| "before_select (x # rest) t ac s =
     (case wait_step x t ac s of
        (Return (t1, ac1), s1) \<Rightarrow> before_select rest t1 ac1 s1
      | (Panic m, s1) \<Rightarrow> (Panic m, s1)
      | (Exit n, s1) \<Rightarrow> (Exit n, s1)
      | (Block, s1) \<Rightarrow> (Block, s1))"

text \<open>
  A \<^verbatim>\<open>select\<close> takes the case that is ready: the timeout once the deadline \<open>d\<close> has
  passed at time \<open>t\<close>, \<^verbatim>\<open>allClosed\<close> once the channel is closed. With both ready Go
  chooses one at random; here the choice is the parameter \<open>pick\<close> (\<open>True\<close> for the
  timeout).
\<close>

datatype select_case = Timeout | AllClosed

definition select_ready :: "bool \<Rightarrow> int \<Rightarrow> int \<Rightarrow> chan \<Rightarrow> select_case option" where
  "select_ready pick d t ac =
     (if d \<le> t \<and> ac = Closed then Some (if pick then Timeout else AllClosed)
      else if d \<le> t then Some Timeout
      else if ac = Closed then Some AllClosed
      else None)"

definition case_timeout :: "proc \<Rightarrow> unit outcome \<times> proc" where
  "case_timeout s = (Exit (- 1), log_Printf ''Maximum wait time exceeding. Terminating.'' [] s)"

definition case_allClosed :: "proc \<Rightarrow> unit outcome \<times> proc" where
  "case_allClosed s = (Return (), log_Printf ''All connection closed. Shutting down.'' [] s)"

text \<open>
  The \<^verbatim>\<open>select\<close>, entered at time \<open>t\<close> (nanoseconds since \<^verbatim>\<open>time.After\<close>) with
  \<^verbatim>\<open>allClosed\<close> in the state \<open>ac\<close>. While no case is ready \<^verbatim>\<open>main\<close> is blocked and
  the next thing happens; the first case to become ready is the one taken. The list
  says all that happens: after it only time passes, and the timeout is what arrives.
\<close>

fun wait_select :: "bool \<Rightarrow> int \<Rightarrow> wait_event list \<Rightarrow> int \<Rightarrow> chan \<Rightarrow> proc \<Rightarrow> unit outcome \<times> proc" where
  "wait_select pick d [] t ac s =
     (case select_ready pick d t ac of
        Some AllClosed \<Rightarrow> case_allClosed s
      | Some Timeout \<Rightarrow> case_timeout s
      | None \<Rightarrow> case_timeout s)"
| "wait_select pick d (x # rest) t ac s =
     (case select_ready pick d t ac of
        Some AllClosed \<Rightarrow> case_allClosed s
      | Some Timeout \<Rightarrow> case_timeout s
      | None \<Rightarrow>
          (case wait_step x t ac s of
             (Return (t1, ac1), s1) \<Rightarrow> wait_select pick d rest t1 ac1 s1
           | (Panic m, s1) \<Rightarrow> (Panic m, s1)
           | (Exit n, s1) \<Rightarrow> (Exit n, s1)
           | (Block, s1) \<Rightarrow> (Block, s1)))"

text \<open>
  \<^verbatim>\<open>waitClients(maxWait)\<close>: the timer is started, the channel made, the goroutine
  started; then \<^verbatim>\<open>main\<close> goes on to its \<^verbatim>\<open>select\<close>.
\<close>

definition waitClients :: "bool \<Rightarrow> wait_event list \<Rightarrow> wait_event list \<Rightarrow> 64 word \<Rightarrow> proc \<Rightarrow> unit outcome \<times> proc" where
  "waitClients pick before evs d s =
     andThen (before_select before 0 Open (emit (Go ''wg.Wait'') s))
       (\<lambda>(t, ac) s1. wait_select pick (sint d) evs t ac s1)"

subsection \<open>\<^verbatim>\<open>main\<close>\<close>

definition printUsage :: "proc \<Rightarrow> unit outcome \<times> proc" where
  "printUsage s = (Exit 0, emit (Print ''Usage: go-azure-website <dir_to_watch>'') s)"

definition showFlags :: "string \<times> string \<Rightarrow> proc \<Rightarrow> proc" where
  "showFlags f s = log_Printf ''Flag set: %s=%v'' [Str (fst f), Str (snd f)] s"

text \<open>\<^verbatim>\<open>flag.Visit\<close> calls the function on every flag that was set; \<^verbatim>\<open>flag.Arg(i)\<close>
  is the empty string when there is no such argument.\<close>

definition flag_Visit :: "(string \<times> string \<Rightarrow> proc \<Rightarrow> proc) \<Rightarrow> (string \<times> string) list \<Rightarrow> proc \<Rightarrow> proc" where
  "flag_Visit f fs s = fold f fs s"

definition flag_Arg :: "nat \<Rightarrow> string list \<Rightarrow> string" where
  "flag_Arg i as = (if i < length as then as ! i else [])"

definition net_Listen :: "env \<Rightarrow> string \<Rightarrow> int \<Rightarrow> proc \<Rightarrow> error option \<times> proc" where
  "net_Listen e network p s = (listenErr e, emit (Listen network p) s)"

definition defineHandlers :: "proc \<Rightarrow> proc" where
  "defineHandlers s = emit (HandleFunc ''/'') s"

text \<open>\<^verbatim>\<open>time.Second\<close>, in nanoseconds; a \<^verbatim>\<open>time.Duration\<close> is an \<^verbatim>\<open>int64\<close>.\<close>

definition Second :: "64 word" where
  "Second = 1000000000"

text \<open>
  \<^verbatim>\<open>main\<close>, after \<^verbatim>\<open>flag.Parse\<close> has stored the flags. The call \<^verbatim>\<open>s.Serve(sl)\<close>
  belongs to \<^verbatim>\<open>net/http\<close> and runs next to the goroutines started before it: what
  happens to the process while \<^verbatim>\<open>main\<close> is inside that call is the parameter
  \<open>serve\<close>. Every \<^verbatim>\<open>log.Fatalf\<close> and \<^verbatim>\<open>os.Exit\<close> ends the run where it stands.
\<close>

definition main :: "env \<Rightarrow> (proc \<Rightarrow> unit outcome \<times> proc) \<Rightarrow> proc \<Rightarrow> unit outcome \<times> proc" where
  "main e serve s0 =
     (let sp = s0\<lparr>port := flagPort e, maxWait := flagMaxWait e\<rparr>
      in andThen (if length (args e) < 1 then printUsage sp else (Return (), sp)) (\<lambda>u s1.
         let s2 = s1\<lparr>watchDir := flag_Arg 0 (args e)\<rparr>;
             s3 = flag_Visit showFlags (flagsSet e) s2;
             (err, s4) = net_Listen e ''tcp4'' (port s3) s3
         in andThen (case err of
                       Some x \<Rightarrow> log_Fatalf ''Could not create listener: %v'' [Str x] s4
                     | None \<Rightarrow> (Return (), s4)) (\<lambda>u s5.
            andThen (startWatcher e (log_Printf ''Starting watcher'' [] s5)) (\<lambda>u s6.
            let s7 = waitForClose s6;
                s8 = defineHandlers s7;
                s9 = log_Printf ''Starting server: %+v'' [Srv] s8
            in andThen (serve (emit Serve s9)) (\<lambda>u s10.
               andThen (close_stop (log_Printf ''Stopping watching'' [] s10)) (\<lambda>u s11.
               waitClients (pickTimeout e) (beforeSelect e) (whileWaiting e) (maxWait s11 * Second)
                 (log_Printf ''Waiting for existing clients for upto %d seconds''
                    [Num (sint (maxWait s11))] s11)))))))"

text \<open>
  The exit status of the process: 0 when \<^verbatim>\<open>main\<close> returns, the argument of
  \<^verbatim>\<open>os.Exit\<close>, 2 after a panic that nothing recovers; none while the process runs.
\<close>

fun exitStatus :: "unit outcome \<Rightarrow> int option" where
  "exitStatus (Return u) = Some 0"
| "exitStatus (Exit n) = Some n"
| "exitStatus (Panic m) = Some 2"
| "exitStatus Block = None"

subsection \<open>\<^verbatim>\<open>rootHandler\<close>\<close>

text \<open>
  The \<^verbatim>\<open>http.ResponseWriter\<close>: the header map, whether the status line has been
  written, with which status and which headers, and the body written so far. A read of
  a Go map at a missing key gives the \<^verbatim>\<open>nil\<close> slice, so the header map is a total
  function.
\<close>

type_synonym Header = "string \<Rightarrow> string list"

record Request =
  Method :: string
  Path :: string
  ReqHeader :: Header
  ReqBody :: string

record ResponseWriter =
  header :: Header
  wroteHeader :: bool
  status :: int
  sentHeader :: Header
  body :: string

definition Header_Add :: "string \<Rightarrow> string \<Rightarrow> Header \<Rightarrow> Header" where
  "Header_Add key v h = h(key := h key @ [v])"

definition WriteHeader :: "int \<Rightarrow> ResponseWriter \<Rightarrow> ResponseWriter" where
  "WriteHeader code w =
     (if wroteHeader w then w
      else w\<lparr>wroteHeader := True, status := code, sentHeader := header w\<rparr>)"

definition StatusOK :: int where
  "StatusOK = 200"

definition Fprint :: "ResponseWriter \<Rightarrow> string \<Rightarrow> ResponseWriter" where
  "Fprint w txt =
     (let w1 = (if wroteHeader w then w else WriteHeader StatusOK w)
      in w1\<lparr>body := body w1 @ txt\<rparr>)"

definition rootHandler :: "ResponseWriter \<Rightarrow> Request \<Rightarrow> ResponseWriter" where
  \<open>rootHandler w r =
     (let w1 = w\<lparr>header := Header_Add ''Content-Type'' ''application/json'' (header w)\<rparr>;
          w2 = WriteHeader StatusOK w1
      in Fprint w2 ''{"message": "Hello from Azure Websites!"}'')\<close>

text \<open>The writer the server hands to a handler: nothing set, nothing written.\<close>

definition newResponse :: ResponseWriter where
  "newResponse = \<lparr>header = (\<lambda>k. []), wroteHeader = False, status = 0,
     sentHeader = (\<lambda>k. []), body = []\<rparr>"

subsection \<open>Starting state, and the drain time of a run\<close>

text \<open>The process as it starts: the zero values of the globals, an open listener.\<close>

definition start :: proc where
  "start = \<lparr>wg = 0, trace = [], port = 0, maxWait = 0, watchDir = [], lnClosed = False,
     backlog = [], newBin = Open, stopCh = Open\<rparr>"


fun elapsed :: "wait_event list \<Rightarrow> int" where
  "elapsed [] = 0"
| "elapsed (Elapse n # rest) = int n + elapsed rest"
| "elapsed (CloseOf c # rest) = elapsed rest"
| "elapsed (WaitRuns # rest) = elapsed rest"


subsection \<open>Sample inputs\<close>

text \<open>Two client connections, and the command line \<^verbatim>\<open>-port 8080 /site/wwwroot/_target\<close>
  in an environment where every call succeeds.\<close>

definition connA :: netConn where
  "connA = \<lparr>RemoteAddr = ''10.0.0.7:5050'', CloseErr = None\<rparr>"

definition connB :: netConn where
  "connB = \<lparr>RemoteAddr = ''10.0.0.8:6060'', CloseErr = None\<rparr>"

definition cmdline :: env where
  "cmdline = \<lparr>flagsSet = [(''port'', ''8080'')], flagPort = 8080, flagMaxWait = 30,
     args = [''/site/wwwroot/_target''], listenErr = None, newWatcherErr = None,
     addErr = None, pickTimeout = False, beforeSelect = [], whileWaiting = []\<rparr>"


section \<open>Closing a tracked connection\<close>

lemma wg_Done_result:
  "wg_Done s = (if 0 < wg s then Return () else Panic ''sync: negative WaitGroup counter'',
                s\<lparr>wg := wg s - 1, trace := trace s @ [WgAdd (- 1)]\<rparr>)"
  by (auto simp: wg_Done_def wg_Add_def emit_def Let_def)

lemma semConn_Close_result:
  "semConn_Close c s =
     (if 0 < wg s then Return (CloseErr c) else Panic ''sync: negative WaitGroup counter'',
      s\<lparr>wg := wg s - 1,
        trace := trace s @ [ConnClose (RemoteAddr c),
                            Log ''connection to %s closed'' [Str (RemoteAddr c)],
                            WgAdd (- 1)]\<rparr>)"
  by (simp add: semConn_Close_def netConn_Close_def log_Printf_def emit_def wg_Done_result)

text \<open>
  C7, as stated, fails in its last part. Two connections are accepted and the first is
  closed twice, which brings the counter to zero. The second connection, returned by
  \<^verbatim>\<open>Accept\<close> as a \<^verbatim>\<open>semConn\<close>, is then closed for the first time: its \<^verbatim>\<open>Close\<close> panics in
  \<^verbatim>\<open>wg.Done()\<close>, and the result of the embedded \<^verbatim>\<open>Close\<close> does not reach the caller.
\<close>

theorem semConn_Close_uncounted_counterexample:
  "fst (stoppableListener_Accept (snd (stoppableListener_Accept
        (start\<lparr>backlog := [(Some connA, None), (Some connB, None)]\<rparr>))))
     = Return (Some (SemConn connB), None)
   \<and> fst (semConn_Close connB (snd (semConn_Close connA (snd (semConn_Close connA
        (snd (stoppableListener_Accept (snd (stoppableListener_Accept
          (start\<lparr>backlog := [(Some connA, None), (Some connB, None)]\<rparr>))))))))))
     = Panic ''sync: negative WaitGroup counter''"
  by (simp add: stoppableListener_Accept_def netListener_Accept_def start_def emit_def
        log_Printf_def wg_Add_def semConn_Close_result connA_def connB_def)

text \<open>
  C7, amended. \<^verbatim>\<open>semConn.Close\<close> closes the embedded connection first, logs, and then
  calls \<^verbatim>\<open>wg.Done()\<close>, whatever the embedded \<^verbatim>\<open>Close\<close> answered: the three calls are in
  the trace in this order and the counter is one lower for every answer \<open>CloseErr c\<close>.
  The answer of the embedded \<^verbatim>\<open>Close\<close> is what the caller gets when the counter is
  positive at the call; with the counter at zero or below \<^verbatim>\<open>wg.Done()\<close> panics and
  \<^verbatim>\<open>Close\<close> does not return.
\<close>

theorem semConn_Close_order:
  "trace (snd (semConn_Close c s)) =
     trace s @ [ConnClose (RemoteAddr c),
                Log ''connection to %s closed'' [Str (RemoteAddr c)],
                WgAdd (- 1)]
   \<and> wg (snd (semConn_Close c s)) = wg s - 1
   \<and> (0 < wg s \<longrightarrow> fst (semConn_Close c s) = Return (CloseErr c))
   \<and> (wg s \<le> 0 \<longrightarrow> fst (semConn_Close c s) = Panic ''sync: negative WaitGroup counter'')"
  by (simp add: semConn_Close_result)


text \<open>A connection whose own \<^verbatim>\<open>Close\<close> fails: the error comes back and the counter goes
  from 1 to 0; with the counter at 0 the same call panics.\<close>

theorem semConn_Close_order_witness:
  "fst (semConn_Close \<lparr>RemoteAddr = ''10.0.0.7:5050'', CloseErr = Some ''broken pipe''\<rparr>
         (start\<lparr>wg := 1\<rparr>)) = Return (Some ''broken pipe'')
   \<and> wg (snd (semConn_Close \<lparr>RemoteAddr = ''10.0.0.7:5050'', CloseErr = Some ''broken pipe''\<rparr>
         (start\<lparr>wg := 1\<rparr>))) = 0
   \<and> fst (semConn_Close \<lparr>RemoteAddr = ''10.0.0.7:5050'', CloseErr = Some ''broken pipe''\<rparr>
         start) = Panic ''sync: negative WaitGroup counter''"
  using semConn_Close_order [of "\<lparr>RemoteAddr = ''10.0.0.7:5050'', CloseErr = Some ''broken pipe''\<rparr>" "start\<lparr>wg := 1\<rparr>"]
    semConn_Close_order [of "\<lparr>RemoteAddr = ''10.0.0.7:5050'', CloseErr = Some ''broken pipe''\<rparr>" start]
  by (simp add: start_def)


text \<open>
  C1, as stated, fails. Two connections are accepted, so the counter is 2; the first
  one is closed twice. Both calls return, and the counter is 0 although the second
  connection is still open: closing one connection twice took two off the counter.
\<close>

theorem semConn_Close_twice_counterexample:
  "wg (snd (stoppableListener_Accept (snd (stoppableListener_Accept
        (start\<lparr>backlog := [(Some connA, None), (Some connB, None)]\<rparr>))))) = 2
   \<and> fst (semConn_Close connA (snd (semConn_Close connA
        (snd (stoppableListener_Accept (snd (stoppableListener_Accept
          (start\<lparr>backlog := [(Some connA, None), (Some connB, None)]\<rparr>)))))))) = Return None
   \<and> wg (snd (semConn_Close connA (snd (semConn_Close connA
        (snd (stoppableListener_Accept (snd (stoppableListener_Accept
          (start\<lparr>backlog := [(Some connA, None), (Some connB, None)]\<rparr>))))))))) = 0"
  by (simp add: stoppableListener_Accept_def netListener_Accept_def start_def emit_def
        log_Printf_def wg_Add_def semConn_Close_result connA_def connB_def)

text \<open>
  C1, amended. Every \<^verbatim>\<open>Close\<close> of a tracked connection takes one off the counter, a
  repeated \<^verbatim>\<open>Close\<close> too: a call that finds the counter positive returns with the
  counter one lower, so two calls on one connection take two off; a call that finds the
  counter at zero or below panics in \<^verbatim>\<open>wg.Done()\<close> and does not return; and no call
  returns with a negative counter.
\<close>

theorem semConn_Close_each:
  "(0 < wg s \<longrightarrow>
      fst (semConn_Close c s) = Return (CloseErr c) \<and> wg (snd (semConn_Close c s)) = wg s - 1)
   \<and> (2 \<le> wg s \<longrightarrow>
        fst (semConn_Close c (snd (semConn_Close c s))) = Return (CloseErr c)
        \<and> wg (snd (semConn_Close c (snd (semConn_Close c s)))) = wg s - 2)
   \<and> (wg s \<le> 0 \<longrightarrow> fst (semConn_Close c s) = Panic ''sync: negative WaitGroup counter'')
   \<and> (fst (semConn_Close c s) = Return (CloseErr c) \<longrightarrow> 0 \<le> wg (snd (semConn_Close c s)))"
  by (auto simp: semConn_Close_result)

theorem semConn_Close_each_witness:
  "fst (semConn_Close connA (snd (semConn_Close connA (start\<lparr>wg := 2\<rparr>)))) = Return None
   \<and> wg (snd (semConn_Close connA (snd (semConn_Close connA (start\<lparr>wg := 2\<rparr>))))) = 0
   \<and> fst (semConn_Close connA start) = Panic ''sync: negative WaitGroup counter''"
  using semConn_Close_each [of "start\<lparr>wg := 2\<rparr>" connA] semConn_Close_each [of start connA]
  by (simp add: start_def connA_def)

section \<open>Accepting on a closed listener\<close>

text \<open>
  C6. Once the embedded listener is closed, \<^verbatim>\<open>stoppableListener.Accept\<close> returns the
  failure of the embedded \<^verbatim>\<open>Accept\<close>, and nothing else has happened: the state is the
  one the embedded call left. More generally, whatever failure the embedded
  \<^verbatim>\<open>Accept\<close> returns comes back as it is, the connection beside it is not wrapped in
  a \<^verbatim>\<open>semConn\<close>, and the counter and the log are untouched.
\<close>

theorem Accept_on_closed_listener:
  "(lnClosed s \<longrightarrow>
      stoppableListener_Accept s = (Return (None, Some errClosed), emit ListenerAccept s))
   \<and> (netListener_Accept s = (Return (c, Some e), s1) \<longrightarrow>
        stoppableListener_Accept s = (Return (map_option TCPConn c, Some e), s1)
        \<and> wg s1 = wg s \<and> trace s1 = trace s @ [ListenerAccept])"
  by (auto simp: stoppableListener_Accept_def netListener_Accept_def emit_def Let_def
      split: if_splits list.splits)

text \<open>Three connections are open when the \<^verbatim>\<open>waitForClose\<close> goroutine closes the
  listener; the next \<^verbatim>\<open>Accept\<close> fails and the counter is still 3.\<close>

theorem Accept_on_closed_listener_witness:
  "stoppableListener_Accept (snd (waitForClose_goroutine (start\<lparr>newBin := Closed, wg := 3\<rparr>)))
     = (Return (None, Some ''use of closed network connection''),
        start\<lparr>newBin := Closed, wg := 3, lnClosed := True,
          trace := [Log ''Stopping listening for new connections'' [], ListenerClose, ListenerAccept]\<rparr>)"
  using Accept_on_closed_listener [of "snd (waitForClose_goroutine (start\<lparr>newBin := Closed, wg := 3\<rparr>))" None "''x''" start]
  by (simp add: waitForClose_goroutine_def netListener_Close_def start_def emit_def log_Printf_def errClosed_def)

section \<open>The watcher goroutine\<close>

text \<open>
  C8. An event whose \<^verbatim>\<open>Op\<close> does not include \<^verbatim>\<open>Create\<close> changes nothing, and the
  goroutine goes on with what it receives next. From a channel \<^verbatim>\<open>newBin\<close> that is
  open, an event closes it exactly when its \<^verbatim>\<open>Op\<close> includes \<^verbatim>\<open>Create\<close>. The name
  of the file plays no part.
\<close>

theorem watcher_only_Create_fires:
  "(Op evt AND Create \<noteq> Create \<longrightarrow>
      watcher_goroutine (Events evt # rest) s = watcher_goroutine rest s)
   \<and> (newBin s = Open \<longrightarrow>
        (newBin (snd (watcher_goroutine [Events evt] s)) = Closed) = (Op evt AND Create = Create))
   \<and> watcher_goroutine (Events (evt\<lparr>Name := n\<rparr>) # rest) s = watcher_goroutine (Events evt # rest) s"
  by (auto simp: close_newBin_def emit_def log_Printf_def Let_def)

text \<open>A removal and a write with a mode change leave the process as it started, blocked
  in the \<^verbatim>\<open>select\<close>; a creation that is also a write closes \<^verbatim>\<open>newBin\<close>.\<close>

theorem watcher_only_Create_fires_witness:
  "watcher_goroutine [Events \<lparr>Name = ''old.exe'', Op = Remove\<rparr>, Events \<lparr>Name = ''notes.txt'', Op = Write OR Chmod\<rparr>] start
     = (Block, start)
   \<and> newBin (snd (watcher_goroutine [Events \<lparr>Name = ''notes.txt'', Op = Create OR Write\<rparr>] start)) = Closed"
  using watcher_only_Create_fires [of "\<lparr>Name = ''old.exe'', Op = Remove\<rparr>" "[Events \<lparr>Name = ''notes.txt'', Op = Write OR Chmod\<rparr>]" start]
    watcher_only_Create_fires [of "\<lparr>Name = ''notes.txt'', Op = Write OR Chmod\<rparr>" "[]" start]
    watcher_only_Create_fires [of "\<lparr>Name = ''notes.txt'', Op = Create OR Write\<rparr>" "[]" start]
  by (simp add: Create_def Remove_def Write_def Chmod_def start_def)

text \<open>
  C2. The first creation event closes \<^verbatim>\<open>newBin\<close> and the goroutine stays in its loop.
  A second creation event received before \<^verbatim>\<open>stop\<close> runs \<^verbatim>\<open>close(newBin)\<close> again:
  the goroutine panics, which ends the process with status 2.
\<close>

theorem watcher_second_Create_panics:
  "watcher_goroutine [Events \<lparr>Name = ''site-1a2b3c.exe'', Op = Create\<rparr>] start
     = (Block, start\<lparr>newBin := Closed,
          trace := [Log ''New binary found. Preparing to shutdown.'' [], ChanClose ''newBin'']\<rparr>)
   \<and> watcher_goroutine [Events \<lparr>Name = ''site-1a2b3c.exe'', Op = Create\<rparr>,
                        Events \<lparr>Name = ''site-4d5e6f.exe'', Op = Create\<rparr>] start
     = (Panic ''close of closed channel'',
        start\<lparr>newBin := Closed,
          trace := [Log ''New binary found. Preparing to shutdown.'' [], ChanClose ''newBin'',
                    Log ''New binary found. Preparing to shutdown.'' [], ChanClose ''newBin'']\<rparr>)
   \<and> exitStatus (Panic ''close of closed channel'') = Some 2"
  by (simp add: close_newBin_def emit_def log_Printf_def start_def Create_def)

text \<open>In general: once \<^verbatim>\<open>newBin\<close> is closed, the next creation event that the goroutine
  receives makes it panic.\<close>

lemma watcher_Create_after_fired:
  "newBin s = Closed \<Longrightarrow> Op evt AND Create = Create \<Longrightarrow>
     fst (watcher_goroutine (Events evt # rest) s) = Panic ''close of closed channel''"
  by (simp add: close_newBin_def emit_def log_Printf_def)

text \<open>An error on the watcher's error channel is logged and ends the process with
  status 1.\<close>

lemma watcher_Errors_fatal:
  "watcher_goroutine (Errors err # rest) s =
     (Exit 1, s\<lparr>trace := trace s @ [Log ''File watcher error occurred: %v'' [Str err]]\<rparr>)"
  by (simp add: log_Fatalf_def log_Printf_def emit_def)

lemmas run_defs = main_def printUsage_def flag_Arg_def flag_Visit_def showFlags_def
  net_Listen_def log_Fatalf_def log_Printf_def emit_def startWatcher_def watcher_Add_def
  waitForClose_def defineHandlers_def close_stop_def

section \<open>Waiting for the clients\<close>

subsection \<open>What a list of happenings adds up to\<close>



lemma elapsed_nonneg: "0 \<le> elapsed xs"
  by (induction xs rule: elapsed.induct) simp_all








lemma wait_select_closed:
  "t < d \<Longrightarrow> wait_select pick d evs t Closed s = case_allClosed s"
  by (cases evs) (simp_all add: select_ready_def)

lemma wait_select_late:
  "d \<le> t \<Longrightarrow> wait_select pick d evs t Open s = case_timeout s"
  by (cases evs) (simp_all add: select_ready_def)





subsection \<open>How the wait ends\<close>




subsection \<open>From \<^verbatim>\<open>main\<close> to the wait\<close>





text \<open>Time that passes moves the clock and nothing else, before the \<^verbatim>\<open>select\<close> and,
  short of the deadline, in it.\<close>

lemma before_select_Elapse:
  "before_select (map Elapse ms @ xs) t ac s = before_select xs (t + int (sum_list ms)) ac s"
  by (induction ms arbitrary: t) (simp_all add: add.assoc)

lemma wait_select_Elapse:
  "t + int (sum_list ns) < d \<Longrightarrow>
     wait_select pick d (map Elapse ns @ xs) t Open s
       = wait_select pick d xs (t + int (sum_list ns)) Open s"
proof (induction ns arbitrary: t)
  case Nil
  then show ?case by simp
next
  case (Cons n ns)
  then have "t < d" by simp
  then have "select_ready pick d t Open = None" by (simp add: select_ready_def)
  moreover from Cons.prems have "t + int n + int (sum_list ns) < d" by simp
  ultimately show ?case using Cons.IH [of "t + int n"] by (simp add: add.assoc)
qed

text \<open>
  C4, as stated, fails for a deadline of zero. The counter is zero at the call; when
  \<^verbatim>\<open>main\<close> reaches its \<^verbatim>\<open>select\<close> the timer has fired and the goroutine has not run
  yet, so \<^verbatim>\<open>allClosed\<close> is still open: the timeout is the only case that is ready, and
  the process exits with \<^verbatim>\<open>-1\<close>.
\<close>

theorem waitClients_zero_deadline_counterexample:
  "wg start = 0 \<and> fst (waitClients False [] [WaitRuns] 0 start) = Exit (- 1)"
  by (simp add: waitClients_def start_def emit_def select_ready_def case_timeout_def)

text \<open>
  C4, amended. Called with the counter at zero, \<^verbatim>\<open>waitClients\<close> returns as soon as its
  goroutine has run and closed \<^verbatim>\<open>allClosed\<close>, provided the deadline has not passed by
  then: whether the goroutine runs while \<^verbatim>\<open>main\<close> is blocked in the \<^verbatim>\<open>select\<close> or
  before \<^verbatim>\<open>main\<close> gets there, no connection has to be closed, nothing that would
  happen later is waited for, and the log has the one line of the drained case. With a
  deadline of zero or less the process exits with \<^verbatim>\<open>-1\<close> when the goroutine has not run
  before \<^verbatim>\<open>main\<close> reaches the \<^verbatim>\<open>select\<close>, and when it has, both cases are ready and
  the outcome is the one that the \<^verbatim>\<open>select\<close> picks.
\<close>

theorem waitClients_already_drained:
  assumes "wg s = 0"
  shows "(int (sum_list ms) + int (sum_list ns) < sint d \<longrightarrow>
            waitClients pick (map Elapse ms) (map Elapse ns @ WaitRuns # rest) d s =
              (Return (), s\<lparr>trace := trace s @ [Go ''wg.Wait'', ChanClose ''allClosed'',
                               Log ''All connection closed. Shutting down.'' []]\<rparr>))
       \<and> (int (sum_list ms) + int (sum_list ns) < sint d \<longrightarrow>
            waitClients pick (map Elapse ms @ WaitRuns # map Elapse ns) evs d s =
              (Return (), s\<lparr>trace := trace s @ [Go ''wg.Wait'', ChanClose ''allClosed'',
                               Log ''All connection closed. Shutting down.'' []]\<rparr>))
       \<and> (sint d \<le> 0 \<longrightarrow> fst (waitClients pick [] evs d s) = Exit (- 1))
       \<and> (sint d \<le> 0 \<longrightarrow>
            fst (waitClients pick [WaitRuns] evs d s) = (if pick then Exit (- 1) else Return ()))"
proof (intro conjI impI)
  let ?s = "emit (Go ''wg.Wait'') s"
  let ?s' = "emit (ChanClose ''allClosed'') ?s"
  let ?end = "(Return (), s\<lparr>trace := trace s @ [Go ''wg.Wait'', ChanClose ''allClosed'',
                               Log ''All connection closed. Shutting down.'' []]\<rparr>)"
  have wg: "wg ?s = 0" using assms by (simp add: emit_def)
  have fin: "case_allClosed ?s' = ?end"
    by (simp add: case_allClosed_def log_Printf_def emit_def)
  {
    assume early: "int (sum_list ms) + int (sum_list ns) < sint d"
    have "before_select (map Elapse ms) 0 Open ?s = (Return (int (sum_list ms), Open), ?s)"
      using before_select_Elapse [of ms "[]" 0 Open ?s] by simp
    then have "waitClients pick (map Elapse ms) (map Elapse ns @ WaitRuns # rest) d s
        = wait_select pick (sint d) (map Elapse ns @ WaitRuns # rest) (int (sum_list ms)) Open ?s"
      by (simp add: waitClients_def)
    also have "\<dots> = wait_select pick (sint d) (WaitRuns # rest)
        (int (sum_list ms) + int (sum_list ns)) Open ?s"
      using early by (rule wait_select_Elapse)
    also have "\<dots> = wait_select pick (sint d) rest
        (int (sum_list ms) + int (sum_list ns)) Closed ?s'"
      using early wg by (simp add: select_ready_def)
    also have "\<dots> = case_allClosed ?s'"
      using early by (rule wait_select_closed)
    finally show "waitClients pick (map Elapse ms) (map Elapse ns @ WaitRuns # rest) d s = ?end"
      by (simp only: fin)
  }
  {
    assume early: "int (sum_list ms) + int (sum_list ns) < sint d"
    have "before_select (map Elapse ms @ WaitRuns # map Elapse ns) 0 Open ?s
        = before_select (WaitRuns # map Elapse ns) (int (sum_list ms)) Open ?s"
      using before_select_Elapse [of ms "WaitRuns # map Elapse ns" 0 Open ?s] by simp
    also have "\<dots> = before_select (map Elapse ns @ []) (int (sum_list ms)) Closed ?s'"
      using wg by simp
    also have "\<dots> = (Return (int (sum_list ms) + int (sum_list ns), Closed), ?s')"
      by (simp only: before_select_Elapse before_select.simps)
    finally have "waitClients pick (map Elapse ms @ WaitRuns # map Elapse ns) evs d s
        = wait_select pick (sint d) evs (int (sum_list ms) + int (sum_list ns)) Closed ?s'"
      by (simp add: waitClients_def)
    also have "\<dots> = case_allClosed ?s'"
      using early by (rule wait_select_closed)
    finally show "waitClients pick (map Elapse ms @ WaitRuns # map Elapse ns) evs d s = ?end"
      by (simp only: fin)
  }
  {
    assume late: "sint d \<le> 0"
    then have "wait_select pick (sint d) evs 0 Open ?s = case_timeout ?s"
      by (rule wait_select_late)
    then show "fst (waitClients pick [] evs d s) = Exit (- 1)"
      by (simp add: waitClients_def case_timeout_def)
    from late have "select_ready pick (sint d) 0 Closed = Some (if pick then Timeout else AllClosed)"
      by (simp add: select_ready_def)
    then have "fst (wait_select pick (sint d) evs 0 Closed ?s')
        = (if pick then Exit (- 1) else Return ())"
      by (cases evs) (simp_all add: case_timeout_def case_allClosed_def)
    then show "fst (waitClients pick [WaitRuns] evs d s) = (if pick then Exit (- 1) else Return ())"
      using wg by (simp add: waitClients_def)
  }
qed

theorem waitClients_already_drained_witness:
  "waitClients True [Elapse 3] [Elapse 4, WaitRuns, Elapse 7] (30 * Second) start =
     (Return (), start\<lparr>trace := [Go ''wg.Wait'', ChanClose ''allClosed'',
                                Log ''All connection closed. Shutting down.'' []]\<rparr>)
   \<and> waitClients True [Elapse 3, WaitRuns, Elapse 4] [Elapse 7] (30 * Second) start =
     (Return (), start\<lparr>trace := [Go ''wg.Wait'', ChanClose ''allClosed'',
                                Log ''All connection closed. Shutting down.'' []]\<rparr>)
   \<and> fst (waitClients False [] [WaitRuns] 0 start) = Exit (- 1)
   \<and> fst (waitClients False [WaitRuns] [] 0 start) = Return ()"
  using waitClients_already_drained [of start "[3]" "[4]" "30 * Second" True "[Elapse 7]" "[Elapse 7]" ]
    waitClients_already_drained [of start "[]" "[]" 0 False "[]" "[WaitRuns]"]
    waitClients_already_drained [of start "[]" "[]" 0 False "[]" "[]"]
  by (simp add: start_def Second_def)





section \<open>Starting up\<close>

text \<open>
  C9. Without a positional argument \<^verbatim>\<open>main\<close> prints the usage line and exits with
  status 0. Nothing else is in the trace: no listener, no watcher. The status is the one
  of a run that ends through the drained case of \<^verbatim>\<open>waitClients\<close>.
\<close>

theorem main_usage_exit:
  "length (args e) < 1 \<Longrightarrow>
     main e serve s = (Exit 0, s\<lparr>port := flagPort e, maxWait := flagMaxWait e,
                          trace := trace s @ [Print ''Usage: go-azure-website <dir_to_watch>'']\<rparr>)
     \<and> exitStatus (fst (main e serve s)) = Some 0
     \<and> exitStatus (fst (case_allClosed s')) = Some 0"
  by (simp add: main_def printUsage_def emit_def case_allClosed_def)

theorem main_usage_exit_witness:
  "main (cmdline\<lparr>args := []\<rparr>) (\<lambda>s. (Block, s)) start =
     (Exit 0, start\<lparr>port := 8080, maxWait := 30,
                 trace := [Print ''Usage: go-azure-website <dir_to_watch>'']\<rparr>)"
  using main_usage_exit [of "cmdline\<lparr>args := []\<rparr>" "\<lambda>s. (Block, s)" start start]
  by (simp add: cmdline_def start_def)

text \<open>
  C5. A failure of \<^verbatim>\<open>fsnotify.NewWatcher\<close> is fatal: it is logged and the process exits
  with status 1 before \<^verbatim>\<open>Serve\<close>.
\<close>

lemma main_NewWatcher_error_fatal:
  "main (cmdline\<lparr>newWatcherErr := Some ''too many open files''\<rparr>) serve start =
     (Exit 1, start\<lparr>port := 8080, maxWait := 30, watchDir := ''/site/wwwroot/_target'',
        trace := [Log ''Flag set: %s=%v'' [Str ''port'', Str ''8080''],
                  Listen ''tcp4'' 8080,
                  Log ''Starting watcher'' [],
                  NewWatcher,
                  Log ''Could not create watcher: %v'' [Str ''too many open files'']]\<rparr>)"
  by (simp add: run_defs cmdline_def start_def)

text \<open>
  C5, where the code departs from it. The result of \<^verbatim>\<open>w.Add(config.watchDir)\<close> is
  dropped: with a directory that cannot be watched, nothing is logged and \<^verbatim>\<open>main\<close>
  goes on to \<^verbatim>\<open>Serve\<close>.
\<close>

theorem main_serves_after_Add_error:
  "main (cmdline\<lparr>args := [''/no/such/dir''], addErr := Some ''no such file or directory''\<rparr>)
        (\<lambda>s. (Block, s)) start =
     (Block, start\<lparr>port := 8080, maxWait := 30, watchDir := ''/no/such/dir'',
        trace := [Log ''Flag set: %s=%v'' [Str ''port'', Str ''8080''],
                  Listen ''tcp4'' 8080,
                  Log ''Starting watcher'' [],
                  NewWatcher, Go ''watcher'', WatcherAdd ''/no/such/dir'',
                  Go ''waitForClose'', HandleFunc ''/'',
                  Log ''Starting server: %+v'' [Srv],
                  Serve]\<rparr>)"
  by (simp add: run_defs cmdline_def start_def)

section \<open>The handler\<close>

text \<open>
  C10. On the writer the server hands over, \<^verbatim>\<open>rootHandler\<close> leaves one
  \<^verbatim>\<open>Content-Type\<close> value, \<^verbatim>\<open>application/json\<close>, status 200 and the fixed body, for
  every request; and on any writer the result is the same for any two requests.
\<close>

theorem rootHandler_fixed_response:
  \<open>rootHandler newResponse r =
     \<lparr>header = (\<lambda>k. [])(''Content-Type'' := [''application/json'']),
      wroteHeader = True, status = 200,
      sentHeader = (\<lambda>k. [])(''Content-Type'' := [''application/json'']),
      body = ''{"message": "Hello from Azure Websites!"}''\<rparr>
   \<and> rootHandler w r = rootHandler w r'\<close>
  by (simp add: rootHandler_def newResponse_def Header_Add_def WriteHeader_def StatusOK_def Fprint_def)

end
